theory Spec2Isabelle
  imports Main
begin

section \<open>The environment of \<open>kgp/utils/execute.py\<close>\<close>

text \<open>
  The module is a wrapper around a model object and the operating system. Everything
  it does besides returning a value is an effect, so the embedding threads a state
  through every statement. The state has two parts:
  \<^item> the \<^emph>\<open>world\<close>: the part of the file system the code looks at, the store of
    Python list objects (the \<open>callbacks\<close> list is updated in place, so aliasing
    matters), the weights of the model and the state of the \<open>warnings\<close> machinery;
  \<^item> the \<^emph>\<open>trace\<close>: the actions \<open>train\<close> itself performs on its environment, in
    program order. The model object and the operating system act on the world only;
    they never see the trace.
  An exception is a value: every statement returns \<open>Inl e\<close> (raised) or \<open>Inr x\<close>
  together with the state it leaves behind, since a Python exception does not undo
  what has already been written or created.
\<close>

type_synonym path = string
type_synonym ref = nat

datatype py_exception =
    KeyError string
  | ValueError
  | TypeError
  | FileExistsError path
  | UserWarning string
  | Raised string

text \<open>
  A path names a directory or a file. The only files the code deals with are weights
  files; a file is given by the weights it holds.
\<close>

datatype 'm node = Dir | File 'm

text \<open>The action the warning filters of the process select for a \<open>UserWarning\<close>.\<close>

datatype warn_action = Act_error | Act_ignore | Act_always | Act_default

record checkpoint_hook =
  filepath :: path
  monitor :: string
  save_weights_only :: bool
  save_best_only :: bool

datatype 'c callback = ModelCheckpoint checkpoint_hook | UserCallback 'c

record ('c, 'm) world =
  fs :: "path \<rightharpoonup> 'm node"
  mkdir_fault :: "path \<rightharpoonup> py_exception"
  list_store :: "ref \<Rightarrow> 'c callback list"
  weights :: 'm
  warn_filter :: warn_action
  warn_registry :: "string set"
  warn_shown :: "string list"

text \<open>
  \<open>fs\<close> says what a path names, as the operating system resolves the very string the
  program passes. \<open>mkdir_fault\<close> is the error, if any, that creating a new directory
  of that name meets (permissions, a read-only medium). \<open>list_store\<close> holds the
  contents of each list object; address \<open>callbacks_default\<close> is the list created once,
  when \<open>def train\<close> is executed, for the default \<open>callbacks=[]\<close>. \<open>weights\<close> are
  the weights of the model. \<open>warn_filter\<close> is the action the filters select,
  \<open>warn_registry\<close> the messages the module has on record as already shown from its
  one warning site (line 86), and \<open>warn_shown\<close> the warnings written to the warning
  stream so far.
\<close>

record ('a, 'k) fit_args =
  fa_x :: 'a
  fa_y :: 'a
  fa_validation_data :: "'a list option"
  fa_batch_size :: nat
  fa_nb_epoch :: nat
  fa_callbacks :: ref
  fa_verbose :: nat
  fa_kwargs :: "string \<rightharpoonup> 'k"

datatype ('a, 'k) event =
    Isdir path
  | Makedirs path
  | Isfile path
  | Write string
  | Flush
  | Fit "('a, 'k) fit_args"
  | LoadWeights path
  | Warn string

type_synonym ('a, 'k, 'c, 'm) state = "('c, 'm) world \<times> ('a, 'k) event list"

type_synonym ('r, 'a, 'k, 'c, 'm) prog =
  "('a, 'k, 'c, 'm) state \<Rightarrow> (py_exception + 'r) \<times> ('a, 'k, 'c, 'm) state"

text \<open>
  The model is duck-typed: \<open>train\<close> uses its methods \<open>fit\<close> and \<open>load_weights\<close> and
  nothing else. Both are arbitrary: they may change the world in any way and may raise.
\<close>

record ('a, 'k, 'c, 'm, 'h) model =
  fit :: "('a, 'k) fit_args \<Rightarrow> ('c, 'm) world \<Rightarrow> (py_exception + 'h) \<times> ('c, 'm) world"
  load_weights :: "path \<Rightarrow> ('c, 'm) world \<Rightarrow> (py_exception + unit) \<times> ('c, 'm) world"

subsection \<open>Sequencing\<close>

definition ret :: "'r \<Rightarrow> 's \<Rightarrow> (py_exception + 'r) \<times> 's" where
  "ret x = (\<lambda>s. (Inr x, s))"

definition raise :: "py_exception \<Rightarrow> 's \<Rightarrow> (py_exception + 'r) \<times> 's" where
  "raise e = (\<lambda>s. (Inl e, s))"

definition bind ::
  "('s \<Rightarrow> (py_exception + 'r) \<times> 's) \<Rightarrow> ('r \<Rightarrow> 's \<Rightarrow> (py_exception + 'q) \<times> 's)
     \<Rightarrow> 's \<Rightarrow> (py_exception + 'q) \<times> 's" where
  "bind m f = (\<lambda>s. case m s of (Inl e, s') \<Rightarrow> (Inl e, s') | (Inr x, s') \<Rightarrow> f x s')"

definition do_when :: "bool \<Rightarrow> ('s \<Rightarrow> (py_exception + unit) \<times> 's)
     \<Rightarrow> 's \<Rightarrow> (py_exception + unit) \<times> 's" where
  "do_when b m = (if b then m else ret ())"

subsection \<open>Python and library primitives\<close>

text \<open>\<open>d[k]\<close> on a dict: a missing key raises \<open>KeyError\<close>.\<close>

definition getitem :: "(string \<rightharpoonup> 'v) \<Rightarrow> string \<Rightarrow> 's \<Rightarrow> (py_exception + 'v) \<times> 's" where
  "getitem d k = (case d k of None \<Rightarrow> raise (KeyError k) | Some v \<Rightarrow> ret v)"

text \<open>
  \<open>a, b = v\<close>: the value is a sequence, given by its items; any number of items but
  two raises \<open>ValueError\<close>.
\<close>

definition unpack2 :: "'a list \<Rightarrow> 's \<Rightarrow> (py_exception + 'a \<times> 'a) \<times> 's" where
  "unpack2 v = (case v of [a, b] \<Rightarrow> ret (a, b) | _ \<Rightarrow> raise ValueError)"

text \<open>\<open>os.path.isdir\<close> and \<open>os.path.isfile\<close> never raise and change nothing.\<close>

definition os_path_isdir :: "path \<Rightarrow> (bool, 'a, 'k, 'c, 'm) prog" where
  "os_path_isdir p = (\<lambda>(w, tr). (Inr (fs w p = Some Dir), (w, tr @ [Isdir p])))"

fun holds_file :: "'m node option \<Rightarrow> bool" where
  "holds_file (Some (File x)) = True"
| "holds_file n = False"

definition os_path_isfile :: "path \<Rightarrow> (bool, 'a, 'k, 'c, 'm) prog" where
  "os_path_isfile p = (\<lambda>(w, tr). (Inr (holds_file (fs w p)), (w, tr @ [Isfile p])))"

text \<open>
  \<open>os.makedirs(p)\<close> with the default \<open>exist_ok=False\<close>: raises \<open>FileExistsError\<close>
  (in Python 2, \<open>OSError\<close> with \<open>EEXIST\<close>) when the name is taken, by a directory
  or by anything else, raises the error of the operating system when the directory
  cannot be created, and creates it otherwise.
\<close>

definition os_makedirs :: "path \<Rightarrow> (unit, 'a, 'k, 'c, 'm) prog" where
  "os_makedirs p = (\<lambda>(w, tr).
     (case fs w p of
        Some _ \<Rightarrow> (Inl (FileExistsError p), (w, tr @ [Makedirs p]))
      | None \<Rightarrow>
         (case mkdir_fault w p of
            Some e \<Rightarrow> (Inl e, (w, tr @ [Makedirs p]))
          | None \<Rightarrow> (Inr (), (w\<lparr>fs := (fs w)(p \<mapsto> Dir)\<rparr>, tr @ [Makedirs p])))))"

definition sys_stdout_write :: "string \<Rightarrow> (unit, 'a, 'k, 'c, 'm) prog" where
  "sys_stdout_write s = (\<lambda>(w, tr). (Inr (), (w, tr @ [Write s])))"

definition sys_stdout_flush :: "(unit, 'a, 'k, 'c, 'm) prog" where
  "sys_stdout_flush = (\<lambda>(w, tr). (Inr (), (w, tr @ [Flush])))"

text \<open>
  \<open>warnings.warn(msg)\<close> issues a \<open>UserWarning\<close> from line 86; the event \<open>Warn msg\<close>
  is that call. What becomes of the warning is decided by the \<open>warnings\<close> module:
  a warning on record, under the filters in force, as already shown from this line is
  dropped; otherwise the action of the filters applies. \<open>error\<close> raises the warning as an exception, \<open>ignore\<close>
  drops it, \<open>always\<close> shows it, and \<open>default\<close>, which is what Python selects for
  a \<open>UserWarning\<close> unless told otherwise, shows it and puts it on record, so that a
  repeat from the same line is dropped. (The actions \<open>module\<close> and \<open>once\<close> act as
  \<open>default\<close> for a module with one warning site.)
\<close>

definition warnings_warn :: "string \<Rightarrow> (unit, 'a, 'k, 'c, 'm) prog" where
  "warnings_warn msg = (\<lambda>(w, tr).
     if msg \<in> warn_registry w then (Inr (), (w, tr @ [Warn msg]))
     else
       (case warn_filter w of
          Act_error \<Rightarrow> (Inl (UserWarning msg), (w, tr @ [Warn msg]))
        | Act_ignore \<Rightarrow> (Inr (), (w, tr @ [Warn msg]))
        | Act_always \<Rightarrow> (Inr (), (w\<lparr>warn_shown := warn_shown w @ [msg]\<rparr>, tr @ [Warn msg]))
        | Act_default \<Rightarrow>
            (Inr (), (w\<lparr>warn_registry := insert msg (warn_registry w),
                           warn_shown := warn_shown w @ [msg]\<rparr>, tr @ [Warn msg]))))"

text \<open>\<open>xs += ys\<close> on a list is \<open>list.__iadd__\<close>: the object \<open>xs\<close> is extended in place.\<close>

definition list_iadd :: "ref \<Rightarrow> 'c callback list \<Rightarrow> (unit, 'a, 'k, 'c, 'm) prog" where
  "list_iadd r ys = (\<lambda>(w, tr). (Inr (), (w\<lparr>list_store := (list_store w)(r := list_store w r @ ys)\<rparr>, tr)))"

text \<open>
  A keyword given both explicitly and through \<open>**fit_kwargs\<close> makes the call
  expression raise \<open>TypeError\<close> before the callee runs. Of the keywords of the
  \<open>fit\<close> call only \<open>validation_data\<close> can reach \<open>fit_kwargs\<close>: the others are
  parameters of \<open>train\<close>.
\<close>

definition call_fit ::
  "('a, 'k, 'c, 'm, 'h) model \<Rightarrow> ('a, 'k) fit_args \<Rightarrow> ('h, 'a, 'k, 'c, 'm) prog" where
  "call_fit model a = (\<lambda>(w, tr).
     if fa_kwargs a ''validation_data'' \<noteq> None then (Inl TypeError, (w, tr))
     else (case fit model a w of (r, w') \<Rightarrow> (r, (w', tr @ [Fit a]))))"

definition call_load_weights ::
  "('a, 'k, 'c, 'm, 'h) model \<Rightarrow> path \<Rightarrow> (unit, 'a, 'k, 'c, 'm) prog" where
  "call_load_weights model p = (\<lambda>(w, tr).
     case load_weights model p w of (r, w') \<Rightarrow> (r, (w', tr @ [LoadWeights p])))"

section \<open>\<open>train\<close>\<close>

definition checkpoints_dir :: path where
  "checkpoints_dir = ''checkpoints/''"

text \<open>\<open>'checkpoints/%s.h5' % checkpoint\<close>\<close>

definition checkpoint_path :: "string \<Rightarrow> path" where
  "checkpoint_path checkpoint = ''checkpoints/'' @ checkpoint @ ''.h5''"

definition training_notice :: string where
  "training_notice = ''Training...'' @ [CHR 0x0A]"

definition done_notice :: string where
  "done_notice = ''Done.'' @ [CHR 0x0A]"

definition checkpoint_warning :: string where
  "checkpoint_warning =
     ''Checkpoint file was specified, but no models were '' @
     ''saved by the monitor. Make sure the validation '' @
     ''dataset is specified and the monitoring channel '' @
     ''is set correctly.''"

text \<open>The address of the list object bound to the default \<open>callbacks=[]\<close>.\<close>

definition callbacks_default :: ref where
  "callbacks_default = 0"

text \<open>
  The function, statement by statement. \<open>verbose\<close> is an unsigned integer whose
  truth value is \<open>verbose \<noteq> 0\<close>; \<open>checkpoint\<close> is \<open>None\<close> or a string. Every
  argument is explicit: for an argument left out Python passes the default, that is
  \<open>nb_epoch=100\<close>, \<open>batch_size=128\<close>, \<open>checkpoint=None\<close>,
  \<open>checkpoint_monitor='val_loss'\<close>, \<open>verbose=1\<close>, no \<open>fit_kwargs\<close>, and for
  \<open>callbacks\<close> the list object at \<open>callbacks_default\<close>.
\<close>

definition train ::
  "('a, 'k, 'c, 'm, 'h) model \<Rightarrow> (string \<rightharpoonup> 'a list) \<Rightarrow> nat \<Rightarrow> nat \<Rightarrow> ref \<Rightarrow> string option
     \<Rightarrow> string \<Rightarrow> nat \<Rightarrow> (string \<rightharpoonup> 'k) \<Rightarrow> ('h, 'a, 'k, 'c, 'm) prog" where
  "train model data nb_epoch batch_size callbacks checkpoint checkpoint_monitor verbose fit_kwargs =
     bind (bind (getitem data ''train'') unpack2) (\<lambda>(X_train, y_train).
     bind (bind (getitem data ''test'') unpack2) (\<lambda>(X_test, y_test).
     bind (ret (if data ''valid'' \<noteq> None then data ''valid'' else None)) (\<lambda>validation_data.
     bind (case checkpoint of
             None \<Rightarrow> ret ()
           | Some c \<Rightarrow>
               bind (os_path_isdir checkpoints_dir) (\<lambda>is_dir.
               do_when (\<not> is_dir) (os_makedirs checkpoints_dir))) (\<lambda>_.
     bind (case checkpoint of
             None \<Rightarrow> ret ()
           | Some c \<Rightarrow>
               list_iadd callbacks
                 [ModelCheckpoint \<lparr>filepath = checkpoint_path c,
                                   monitor = checkpoint_monitor,
                                   save_weights_only = True,
                                   save_best_only = True\<rparr>]) (\<lambda>_.
     bind (do_when (verbose \<noteq> 0)
             (bind (sys_stdout_write training_notice) (\<lambda>_. sys_stdout_flush))) (\<lambda>_.
     bind (call_fit model
             \<lparr>fa_x = X_train, fa_y = y_train, fa_validation_data = validation_data,
              fa_batch_size = batch_size, fa_nb_epoch = nb_epoch,
              fa_callbacks = callbacks, fa_verbose = verbose,
              fa_kwargs = fit_kwargs\<rparr>) (\<lambda>history.
     bind (do_when (verbose \<noteq> 0) (sys_stdout_write done_notice)) (\<lambda>_.
     bind (case checkpoint of
             None \<Rightarrow> ret ()
           | Some c \<Rightarrow>
               bind (os_path_isfile (checkpoint_path c)) (\<lambda>is_file.
               if is_file then call_load_weights model (checkpoint_path c)
               else warnings_warn checkpoint_warning)) (\<lambda>_.
     ret history)))))))))"

text \<open>
  The statements before the call of \<open>model.fit\<close> (lines 52 to 71, and the argument
  list of lines 73 to 76), on their own: they return the arguments of the call.
\<close>

definition train_setup ::
  "(string \<rightharpoonup> 'a list) \<Rightarrow> nat \<Rightarrow> nat \<Rightarrow> ref \<Rightarrow> string option
     \<Rightarrow> string \<Rightarrow> nat \<Rightarrow> (string \<rightharpoonup> 'k) \<Rightarrow> (('a, 'k) fit_args, 'a, 'k, 'c, 'm) prog" where
  "train_setup data nb_epoch batch_size callbacks checkpoint checkpoint_monitor verbose fit_kwargs =
     bind (bind (getitem data ''train'') unpack2) (\<lambda>(X_train, y_train).
     bind (bind (getitem data ''test'') unpack2) (\<lambda>(X_test, y_test).
     bind (ret (if data ''valid'' \<noteq> None then data ''valid'' else None)) (\<lambda>validation_data.
     bind (case checkpoint of
             None \<Rightarrow> ret ()
           | Some c \<Rightarrow>
               bind (os_path_isdir checkpoints_dir) (\<lambda>is_dir.
               do_when (\<not> is_dir) (os_makedirs checkpoints_dir))) (\<lambda>_.
     bind (case checkpoint of
             None \<Rightarrow> ret ()
           | Some c \<Rightarrow>
               list_iadd callbacks
                 [ModelCheckpoint \<lparr>filepath = checkpoint_path c,
                                   monitor = checkpoint_monitor,
                                   save_weights_only = True,
                                   save_best_only = True\<rparr>]) (\<lambda>_.
     bind (do_when (verbose \<noteq> 0)
             (bind (sys_stdout_write training_notice) (\<lambda>_. sys_stdout_flush))) (\<lambda>_.
     ret \<lparr>fa_x = X_train, fa_y = y_train, fa_validation_data = validation_data,
          fa_batch_size = batch_size, fa_nb_epoch = nb_epoch,
          fa_callbacks = callbacks, fa_verbose = verbose,
          fa_kwargs = fit_kwargs\<rparr>))))))"

text \<open>The statements after the call of \<open>model.fit\<close> (lines 78 to 91), on their own.\<close>

definition train_finish ::
  "('a, 'k, 'c, 'm, 'h) model \<Rightarrow> string option \<Rightarrow> nat \<Rightarrow> 'h \<Rightarrow> ('h, 'a, 'k, 'c, 'm) prog" where
  "train_finish model checkpoint verbose history =
     bind (do_when (verbose \<noteq> 0) (sys_stdout_write done_notice)) (\<lambda>_.
     bind (case checkpoint of
             None \<Rightarrow> ret ()
           | Some c \<Rightarrow>
               bind (os_path_isfile (checkpoint_path c)) (\<lambda>is_file.
               if is_file then call_load_weights model (checkpoint_path c)
               else warnings_warn checkpoint_warning)) (\<lambda>_.
     ret history))"

subsection \<open>Reading a trace\<close>

fun is_write :: "('a, 'k) event \<Rightarrow> bool" where
  "is_write (Write s) = True"
| "is_write e = False"

fun is_warn :: "('a, 'k) event \<Rightarrow> bool" where
  "is_warn (Warn s) = True"
| "is_warn e = False"

fun is_load :: "('a, 'k) event \<Rightarrow> bool" where
  "is_load (LoadWeights p) = True"
| "is_load e = False"

fun is_makedirs :: "('a, 'k) event \<Rightarrow> bool" where
  "is_makedirs (Makedirs p) = True"
| "is_makedirs e = False"

text \<open>
  The actions that reach the file system: the directory check, the directory creation,
  the file check and the loading of the weights file.
\<close>

fun is_fs_access :: "('a, 'k) event \<Rightarrow> bool" where
  "is_fs_access (Isdir p) = True"
| "is_fs_access (Makedirs p) = True"
| "is_fs_access (Isfile p) = True"
| "is_fs_access (LoadWeights p) = True"
| "is_fs_access e = False"

section \<open>\<open>elapsed_timer\<close>\<close>

text \<open>
  The generator behind the context manager has two reachable frames. Between the
  \<open>yield\<close> and the end of the managed block, \<open>elapsed\<close> is bound to
  \<open>lambda: default_timer() - start\<close>; once the block has ended normally, lines 23 and
  24 have run and \<open>elapsed\<close> is bound to \<open>lambda: end - start\<close>. The yielded
  callable \<open>lambda: elapsed()\<close> looks \<open>elapsed\<close> up when it is called. The clock
  \<open>default_timer()\<close> is an abstract time source: each read is given as the value read.
\<close>

datatype 't timer_frame = InScope 't | Finished 't 't

definition elapsed_timer_enter :: "'t \<Rightarrow> 't timer_frame" where
  "elapsed_timer_enter now = InScope now"

fun elapsed_timer_exit :: "'t \<Rightarrow> 't timer_frame \<Rightarrow> 't timer_frame" where
  "elapsed_timer_exit now (InScope start) = Finished start now"
| "elapsed_timer_exit now (Finished start end_time) = Finished start end_time"

fun elapsed_timer_call :: "'t::minus timer_frame \<Rightarrow> 't \<Rightarrow> 't" where
  "elapsed_timer_call (InScope start) now = now - start"
| "elapsed_timer_call (Finished start end_time) now = end_time - start"

section \<open>Example objects\<close>

definition example_data :: "string \<rightharpoonup> nat list" where
  "example_data = [''train'' \<mapsto> [1, 2], ''test'' \<mapsto> [3, 4]]"

text \<open>
  A fresh process in an empty working directory: nothing on disk, the default list
  still empty, the default warning filter and no warning shown yet.
\<close>

definition example_world :: "(unit, nat) world" where
  "example_world =
     \<lparr>fs = Map.empty, mkdir_fault = Map.empty, list_store = (\<lambda>r. []), weights = 0,
      warn_filter = Act_default, warn_registry = {}, warn_shown = []\<rparr>"

text \<open>A \<open>load_weights\<close> that restores the weights the file holds.\<close>

definition restore_weights :: "path \<Rightarrow> ('c, 'm) world \<Rightarrow> (py_exception + unit) \<times> ('c, 'm) world" where
  "restore_weights p w =
     (case fs w p of
        Some (File x) \<Rightarrow> (Inr (), w\<lparr>weights := x\<rparr>)
      | _ \<Rightarrow> (Inl (Raised ''cannot open file''), w))"

text \<open>
  A model whose \<open>fit\<close> saves the weights 7 of its best epoch as the checkpoint \<open>m1\<close>
  and ends its last epoch with the weights 9.
\<close>

definition saving_model :: "(nat, unit, unit, nat, string) model" where
  "saving_model =
     \<lparr>fit = (\<lambda>a w. (Inr ''history'', w\<lparr>fs := (fs w)(''checkpoints/m1.h5'' \<mapsto> File 7), weights := 9\<rparr>)),
      load_weights = restore_weights\<rparr>"

text \<open>A model whose \<open>fit\<close> trains to the weights 9 without ever saving.\<close>

definition idle_model :: "(nat, unit, unit, nat, string) model" where
  "idle_model =
     \<lparr>fit = (\<lambda>a w. (Inr ''history'', w\<lparr>weights := 9\<rparr>)),
      load_weights = restore_weights\<rparr>"

text \<open>A model whose \<open>fit\<close> raises.\<close>

definition failing_model :: "(nat, unit, unit, nat, string) model" where
  "failing_model =
     \<lparr>fit = (\<lambda>a w. (Inl (Raised ''fit failed''), w)),
      load_weights = restore_weights\<rparr>"


text \<open>A model whose \<open>fit\<close> returns, as its history, the callbacks it was handed.\<close>

definition probe_model :: "(nat, unit, unit, nat, unit callback list) model" where
  "probe_model =
     \<lparr>fit = (\<lambda>a w. (Inr (list_store w (fa_callbacks a)), w)),
      load_weights = (\<lambda>p w. (Inr (), w))\<rparr>"

text \<open>
  A model whose \<open>fit\<close> returns, as its history, its arguments and the contents of the
  list it was handed as \<open>callbacks\<close>.
\<close>

definition echo_model ::
  "(nat, unit, unit, nat, (nat, unit) fit_args \<times> unit callback list) model" where
  "echo_model =
     \<lparr>fit = (\<lambda>a w. (Inr (a, list_store w (fa_callbacks a)), w)),
      load_weights = restore_weights\<rparr>"

section \<open>Properties\<close>

subsection \<open>Sequencing and the shape of \<open>train\<close>\<close>

lemma bind_assoc: "bind (bind m f) g = bind m (\<lambda>x. bind (f x) g)"
  by (auto simp: bind_def fun_eq_iff split: prod.splits sum.splits)

lemma bind_ret_left: "bind (ret x) f = f x"
  by (simp add: bind_def ret_def)

text \<open>\<open>train\<close> is its setup, the call of \<open>fit\<close> and its finish, in sequence.\<close>

lemma train_decomp:
  "train model data nb_epoch batch_size callbacks checkpoint checkpoint_monitor verbose fit_kwargs =
     bind (train_setup data nb_epoch batch_size callbacks checkpoint checkpoint_monitor verbose fit_kwargs)
       (\<lambda>a. bind (call_fit model a) (train_finish model checkpoint verbose))"
  unfolding train_def train_setup_def train_finish_def
  by (simp add: bind_assoc bind_ret_left split_def)

lemma train_setup_raises:
  assumes "train_setup data n b cbs ck mon v kw s0 = (Inl e, s1)"
  shows "train model data n b cbs ck mon v kw s0 = (Inl e, s1)"
  using assms by (simp add: train_decomp bind_def)

lemma train_fit_raises:
  assumes "train_setup data n b cbs ck mon v kw s0 = (Inr a, s1)"
    and "call_fit model a s1 = (Inl e, s2)"
  shows "train model data n b cbs ck mon v kw s0 = (Inl e, s2)"
  using assms by (simp add: train_decomp bind_def)

lemma train_fit_returns:
  assumes "train_setup data n b cbs ck mon v kw s0 = (Inr a, s1)"
    and "call_fit model a s1 = (Inr h, s2)"
  shows "train model data n b cbs ck mon v kw s0 = train_finish model ck v h s2"
  using assms by (simp add: train_decomp bind_def)

subsection \<open>The statements after the call of \<open>fit\<close>\<close>

lemma train_finish_None:
  "train_finish model None v h (w, tr) =
     (Inr h, (w, tr @ (if v \<noteq> 0 then [Write done_notice] else [])))"
  by (simp add: train_finish_def bind_def do_when_def ret_def sys_stdout_write_def)

lemma train_finish_file:
  assumes "fs w (checkpoint_path c) = Some (File x)"
  shows "train_finish model (Some c) v h (w, tr) =
     (case load_weights model (checkpoint_path c) w of
        (r, w') \<Rightarrow>
          (case r of Inl e \<Rightarrow> Inl e | Inr u \<Rightarrow> Inr h,
           (w', tr @ (if v \<noteq> 0 then [Write done_notice] else [])
                   @ [Isfile (checkpoint_path c), LoadWeights (checkpoint_path c)])))"
  using assms
  by (simp add: train_finish_def bind_def do_when_def ret_def sys_stdout_write_def
      os_path_isfile_def call_load_weights_def split: prod.splits sum.splits)

lemma train_finish_no_file:
  assumes "\<not> holds_file (fs w (checkpoint_path c))"
  shows "train_finish model (Some c) v h (w, tr) =
     (case warnings_warn checkpoint_warning
             (w, tr @ (if v \<noteq> 0 then [Write done_notice] else []) @ [Isfile (checkpoint_path c)]) of
        (r, s') \<Rightarrow> (case r of Inl e \<Rightarrow> Inl e | Inr u \<Rightarrow> Inr h, s'))"
  using assms
  by (simp add: train_finish_def bind_def do_when_def ret_def sys_stdout_write_def
      os_path_isfile_def split: prod.splits sum.splits)

lemma warnings_warn_trace:
  assumes "warnings_warn msg (w, tr) = (r, (w', tr'))"
  shows "tr' = tr @ [Warn msg]"
  using assms by (auto simp: warnings_warn_def split: if_splits warn_action.splits)

lemma holds_file_iff: "holds_file n \<longleftrightarrow> (\<exists>x. n = Some (File x))"
  by (cases n rule: holds_file.cases) simp_all

subsection \<open>The statements before the call of \<open>fit\<close>\<close>

lemmas prim_defs = bind_def ret_def raise_def do_when_def getitem_def unpack2_def
  os_path_isdir_def os_path_isfile_def os_makedirs_def sys_stdout_write_def
  sys_stdout_flush_def warnings_warn_def list_iadd_def

lemmas example_defs = example_data_def example_world_def checkpoints_dir_def
  checkpoint_path_def callbacks_default_def

text \<open>
  Whatever its outcome, the setup adds to the trace at most the directory check and
  the directory creation, then the start notice and the flush, and these last two only
  when it is verbose and runs to its end.
\<close>

lemma train_setup_trace:
  assumes "train_setup data n b cbs ck mon v kw (w0, tr0) = (r, (w1, tr1))"
  shows "\<exists>dirs. tr1 = tr0 @ dirs @ (if v \<noteq> 0 \<and> (\<exists>a. r = Inr a) then [Write training_notice, Flush] else [])
            \<and> set dirs \<subseteq> {Isdir checkpoints_dir, Makedirs checkpoints_dir}
            \<and> (ck = None \<longrightarrow> dirs = [])"
  using assms unfolding train_setup_def
  by (auto simp: prim_defs split: option.splits list.splits if_splits prod.splits sum.splits)

lemma call_fit_trace:
  assumes "call_fit model a (w1, tr1) = (r, (w2, tr2))"
  shows "tr2 = tr1 \<or> tr2 = tr1 @ [Fit a]"
  using assms by (auto simp: call_fit_def split: if_splits prod.splits)

lemma call_fit_returns_trace:
  assumes "call_fit model a (w1, tr1) = (Inr h, (w2, tr2))"
  shows "tr2 = tr1 @ [Fit a]"
  using assms by (auto simp: call_fit_def split: if_splits prod.splits)

lemma train_finish_trace:
  assumes "train_finish model ck v h (w, tr) = (r, (w', tr'))"
  shows "\<exists>post. tr' = tr @ (if v \<noteq> 0 then [Write done_notice] else []) @ post
           \<and> filter is_write post = [] \<and> filter is_makedirs post = [] \<and> (ck = None \<longrightarrow> post = [])"
proof (cases ck)
  case None
  with assms show ?thesis by (simp add: train_finish_None)
next
  case (Some c)
  show ?thesis
  proof (cases "holds_file (fs w (checkpoint_path c))")
    case True
    then obtain x where "fs w (checkpoint_path c) = Some (File x)"
      by (auto simp: holds_file_iff)
    with assms Some show ?thesis
      by (auto simp: train_finish_file split: prod.splits)
  next
    case False
    obtain r2 w2 tr2 where ww: "warnings_warn checkpoint_warning
        (w, tr @ (if v \<noteq> 0 then [Write done_notice] else []) @ [Isfile (checkpoint_path c)])
        = (r2, (w2, tr2))"
      by (metis prod.exhaust)
    from warnings_warn_trace [OF ww] assms Some False ww show ?thesis
      by (auto simp: train_finish_no_file)
  qed
qed

lemma filter_dirs:
  assumes "set dirs \<subseteq> {Isdir p, Makedirs q}"
  shows "filter is_write dirs = []" "filter is_warn dirs = []" "filter is_load dirs = []"
  using assms by (auto simp: filter_empty_conv)

subsection \<open>Reloading the checkpoint\<close>

text \<open>
  Claim C1 says more than the code does. Let \<open>checkpoints/m1.h5\<close> be left over from an
  earlier run, with the weights 5, and let \<open>fit\<close> train to the weights 9 without ever
  saving. The file system is the same after the call as before it, so no checkpoint
  of this run exists; yet the file is there when \<open>train\<close> looks, the old weights are
  loaded without a warning, and the model ends with the weights 5.
\<close>

theorem train_reloads_stale_checkpoint:
  "train idle_model example_data 100 128 callbacks_default (Some ''m1'') ''val_loss'' 0 Map.empty
     (example_world\<lparr>fs := [''checkpoints/'' \<mapsto> Dir, ''checkpoints/m1.h5'' \<mapsto> File 5]\<rparr>, []) =
     (Inr ''history'',
      (example_world
         \<lparr>fs := [''checkpoints/'' \<mapsto> Dir, ''checkpoints/m1.h5'' \<mapsto> File 5],
          list_store := (\<lambda>r. [])(callbacks_default :=
            [ModelCheckpoint \<lparr>filepath = ''checkpoints/m1.h5'', monitor = ''val_loss'',
                               save_weights_only = True, save_best_only = True\<rparr>]),
          weights := 5\<rparr>,
       [Isdir ''checkpoints/'',
        Fit \<lparr>fa_x = 1, fa_y = 2, fa_validation_data = None, fa_batch_size = 128,
             fa_nb_epoch = 100, fa_callbacks = callbacks_default, fa_verbose = 0,
             fa_kwargs = Map.empty\<rparr>,
        Isfile ''checkpoints/m1.h5'', LoadWeights ''checkpoints/m1.h5'']))"
  by (simp add: train_def call_fit_def call_load_weights_def idle_model_def restore_weights_def
      prim_defs example_defs)

text \<open>
  Claim C1, amended. In a call of \<open>train\<close> with \<open>checkpoint\<close> set, let the setup reach
  the call of \<open>fit\<close>, let \<open>fit\<close> return the history \<open>h\<close> and leave the world \<open>w2\<close>,
  and let \<open>checkpoints/<checkpoint>.h5\<close> name a file in \<open>w2\<close>. Then \<open>train\<close> calls
  \<open>load_weights\<close> of the same model on that path, in the world as \<open>fit\<close> left it:
  the world the call ends in is the one \<open>load_weights\<close> produces, and the history is
  returned when \<open>load_weights\<close> returns. With a \<open>load_weights\<close> that restores what
  the file holds, the weights of the model are then the content of that file, whether
  the checkpoint hook wrote it during this call or it was there before.
\<close>

theorem train_reloads_checkpoint:
  assumes "train_setup data n b cbs (Some c) mon v kw (w0, []) = (Inr a, (w1, tr1))"
    and "fa_kwargs a ''validation_data'' = None"
    and "fit model a w1 = (Inr h, w2)"
    and "fs w2 (''checkpoints/'' @ c @ ''.h5'') = Some (File x)"
  shows "train model data n b cbs (Some c) mon v kw (w0, []) =
     (case load_weights model (''checkpoints/'' @ c @ ''.h5'') w2 of
        (r, w3) \<Rightarrow>
          (case r of Inl e \<Rightarrow> Inl e | Inr u \<Rightarrow> Inr h,
           (w3, tr1 @ [Fit a] @ (if v \<noteq> 0 then [Write done_notice] else [])
                    @ [Isfile (''checkpoints/'' @ c @ ''.h5''),
                       LoadWeights (''checkpoints/'' @ c @ ''.h5'')])))
     \<and> (load_weights model (''checkpoints/'' @ c @ ''.h5'') w2 = (Inr (), w2\<lparr>weights := x\<rparr>)
        \<longrightarrow> train model data n b cbs (Some c) mon v kw (w0, []) =
            (Inr h, (w2\<lparr>weights := x\<rparr>,
                     tr1 @ [Fit a] @ (if v \<noteq> 0 then [Write done_notice] else [])
                         @ [Isfile (''checkpoints/'' @ c @ ''.h5''),
                            LoadWeights (''checkpoints/'' @ c @ ''.h5'')])))"
proof -
  have p: "fs w2 (checkpoint_path c) = Some (File x)"
    using assms(4) by (simp add: checkpoint_path_def)
  have f: "call_fit model a (w1, tr1) = (Inr h, (w2, tr1 @ [Fit a]))"
    using assms(2,3) by (simp add: call_fit_def)
  have "train model data n b cbs (Some c) mon v kw (w0, []) =
     (case load_weights model (checkpoint_path c) w2 of
        (r, w3) \<Rightarrow>
          (case r of Inl e \<Rightarrow> Inl e | Inr u \<Rightarrow> Inr h,
           (w3, (tr1 @ [Fit a]) @ (if v \<noteq> 0 then [Write done_notice] else [])
                    @ [Isfile (checkpoint_path c), LoadWeights (checkpoint_path c)])))"
    using assms(1) f p
    by (simp add: train_decomp bind_def train_finish_def do_when_def ret_def
        sys_stdout_write_def os_path_isfile_def call_load_weights_def
        split: prod.splits sum.splits)
  then show ?thesis
    by (simp add: checkpoint_path_def)
qed

theorem train_reloads_checkpoint_witness:
  "train saving_model example_data 100 128 callbacks_default (Some ''m1'') ''val_loss'' 1
     Map.empty (example_world, []) =
     (Inr ''history'',
      (example_world
         \<lparr>fs := [''checkpoints/'' \<mapsto> Dir, ''checkpoints/m1.h5'' \<mapsto> File 7],
          list_store := (\<lambda>r. [])(callbacks_default :=
            [ModelCheckpoint \<lparr>filepath = ''checkpoints/m1.h5'', monitor = ''val_loss'',
                               save_weights_only = True, save_best_only = True\<rparr>]),
          weights := 7\<rparr>,
       [Isdir ''checkpoints/'', Makedirs ''checkpoints/'', Write training_notice, Flush,
        Fit \<lparr>fa_x = 1, fa_y = 2, fa_validation_data = None, fa_batch_size = 128,
             fa_nb_epoch = 100, fa_callbacks = callbacks_default, fa_verbose = 1,
             fa_kwargs = Map.empty\<rparr>,
        Write done_notice, Isfile ''checkpoints/m1.h5'', LoadWeights ''checkpoints/m1.h5'']))"
proof -
  let ?a = "\<lparr>fa_x = 1::nat, fa_y = 2, fa_validation_data = None, fa_batch_size = 128,
             fa_nb_epoch = 100, fa_callbacks = callbacks_default, fa_verbose = 1,
             fa_kwargs = (Map.empty :: string \<rightharpoonup> unit)\<rparr>"
  let ?w1 = "example_world
     \<lparr>fs := [''checkpoints/'' \<mapsto> Dir],
      list_store := (\<lambda>r. [])(callbacks_default :=
        [ModelCheckpoint \<lparr>filepath = ''checkpoints/m1.h5'', monitor = ''val_loss'',
                           save_weights_only = True, save_best_only = True\<rparr>])\<rparr>"
  let ?tr1 = "[Isdir ''checkpoints/'', Makedirs ''checkpoints/'', Write training_notice, Flush]"
  let ?w2 = "?w1\<lparr>fs := (fs ?w1)(''checkpoints/m1.h5'' \<mapsto> File 7), weights := 9\<rparr>"
  have s: "train_setup example_data 100 128 callbacks_default (Some ''m1'') ''val_loss'' 1
             Map.empty (example_world, []) = (Inr ?a, (?w1, ?tr1))"
    by (simp add: train_setup_def prim_defs example_defs)
  have k: "fa_kwargs ?a ''validation_data'' = None"
    by simp
  have f: "fit saving_model ?a ?w1 = (Inr ''history'', ?w2)"
    by (simp add: saving_model_def)
  have e: "fs ?w2 (''checkpoints/'' @ ''m1'' @ ''.h5'') = Some (File 7)"
    by simp
  have l: "load_weights saving_model (''checkpoints/'' @ ''m1'' @ ''.h5'') ?w2 =
             (Inr (), ?w2\<lparr>weights := 7\<rparr>)"
    by (simp add: saving_model_def restore_weights_def)
  have direct: "weights (fst (snd (train saving_model example_data 100 128 callbacks_default
      (Some ''m1'') ''val_loss'' 1 Map.empty (example_world, [])))) = 7"
    by (simp add: train_def call_fit_def call_load_weights_def saving_model_def
        restore_weights_def prim_defs example_defs)
  from train_reloads_checkpoint [OF s k f e] l direct show ?thesis
    by (simp add: fun_upd_twist)
qed

subsection \<open>The warning\<close>

text \<open>
  Claim C2 does not hold for every call. Under the default filter the second call of
  a process warns from the same line with the same text, and the warning is dropped:
  after two calls one warning has been shown, not two. And when the filters turn
  warnings into errors, the call raises after \<open>fit\<close> has returned.
\<close>

theorem train_warning_dropped_or_raised:
  "warn_shown (fst (snd (train idle_model example_data 100 128 callbacks_default (Some ''m1'')
       ''val_loss'' 0 Map.empty (example_world, [])))) = [checkpoint_warning]
   \<and> warn_shown (fst (snd (train idle_model example_data 100 128 callbacks_default (Some ''m1'')
       ''val_loss'' 0 Map.empty
       (fst (snd (train idle_model example_data 100 128 callbacks_default (Some ''m1'')
          ''val_loss'' 0 Map.empty (example_world, []))), [])))) = [checkpoint_warning]
   \<and> fst (train idle_model example_data 100 128 callbacks_default (Some ''m1'')
       ''val_loss'' 0 Map.empty (example_world\<lparr>warn_filter := Act_error\<rparr>, [])) =
       Inl (UserWarning checkpoint_warning)"
  by (simp add: train_def call_fit_def call_load_weights_def idle_model_def restore_weights_def
      prim_defs example_defs)

text \<open>
  Claim C2, amended. In a call of \<open>train\<close> with \<open>checkpoint\<close> set, let \<open>fit\<close> return
  the history \<open>h\<close> and leave a world \<open>w2\<close> in which \<open>checkpoints/<checkpoint>.h5\<close>
  is not a file. Then \<open>train\<close> never calls \<open>load_weights\<close> and calls
  \<open>warnings.warn\<close> exactly once, with the checkpoint warning. When that warning is
  not on record as already shown and the filter action is \<open>default\<close> or \<open>always\<close>,
  exactly one warning is shown and the call returns \<open>h\<close>. When it is on record, or
  the action is \<open>ignore\<close>, nothing is shown and the call returns \<open>h\<close>, leaving the
  world as \<open>fit\<close> left it. When it is not on record and the action is \<open>error\<close>, the
  call raises the warning.
\<close>

theorem train_warns_without_checkpoint_file:
  assumes "train_setup data n b cbs (Some c) mon v kw (w0, []) = (Inr a, (w1, tr1))"
    and "fa_kwargs a ''validation_data'' = None"
    and "fit model a w1 = (Inr h, w2)"
    and "\<not> holds_file (fs w2 (''checkpoints/'' @ c @ ''.h5''))"
  shows "filter is_warn (snd (snd (train model data n b cbs (Some c) mon v kw (w0, []))))
           = [Warn checkpoint_warning]
       \<and> filter is_load (snd (snd (train model data n b cbs (Some c) mon v kw (w0, [])))) = []
       \<and> snd (snd (train model data n b cbs (Some c) mon v kw (w0, []))) =
           tr1 @ [Fit a] @ (if v \<noteq> 0 then [Write done_notice] else [])
               @ [Isfile (''checkpoints/'' @ c @ ''.h5''), Warn checkpoint_warning]
       \<and> (checkpoint_warning \<notin> warn_registry w2 \<and> warn_filter w2 = Act_default
          \<longrightarrow> fst (train model data n b cbs (Some c) mon v kw (w0, [])) = Inr h
            \<and> fst (snd (train model data n b cbs (Some c) mon v kw (w0, []))) =
                w2\<lparr>warn_registry := insert checkpoint_warning (warn_registry w2),
                    warn_shown := warn_shown w2 @ [checkpoint_warning]\<rparr>)
       \<and> (checkpoint_warning \<notin> warn_registry w2 \<and> warn_filter w2 = Act_always
          \<longrightarrow> fst (train model data n b cbs (Some c) mon v kw (w0, [])) = Inr h
            \<and> fst (snd (train model data n b cbs (Some c) mon v kw (w0, []))) =
                w2\<lparr>warn_shown := warn_shown w2 @ [checkpoint_warning]\<rparr>)
       \<and> (checkpoint_warning \<in> warn_registry w2 \<or> warn_filter w2 = Act_ignore
          \<longrightarrow> fst (train model data n b cbs (Some c) mon v kw (w0, [])) = Inr h
            \<and> fst (snd (train model data n b cbs (Some c) mon v kw (w0, []))) = w2)
       \<and> (checkpoint_warning \<notin> warn_registry w2 \<and> warn_filter w2 = Act_error
          \<longrightarrow> fst (train model data n b cbs (Some c) mon v kw (w0, [])) =
                Inl (UserWarning checkpoint_warning)
            \<and> fst (snd (train model data n b cbs (Some c) mon v kw (w0, []))) = w2)"
proof -
  let ?tr = "(tr1 @ [Fit a]) @ (if v \<noteq> 0 then [Write done_notice] else [])
               @ [Isfile (''checkpoints/'' @ c @ ''.h5'')]"
  have nf: "\<not> holds_file (fs w2 (checkpoint_path c))"
    using assms(4) by (simp add: checkpoint_path_def)
  have f: "call_fit model a (w1, tr1) = (Inr h, (w2, tr1 @ [Fit a]))"
    using assms(2,3) by (simp add: call_fit_def)
  have run: "train model data n b cbs (Some c) mon v kw (w0, []) =
     (case warnings_warn checkpoint_warning (w2, ?tr) of
        (r, s') \<Rightarrow> (case r of Inl e \<Rightarrow> Inl e | Inr u \<Rightarrow> Inr h, s'))"
    using assms(1) f nf
    by (simp add: train_decomp bind_def train_finish_def do_when_def ret_def
        sys_stdout_write_def os_path_isfile_def checkpoint_path_def
        split: prod.splits sum.splits)
  from train_setup_trace [OF assms(1)] obtain dirs where
    tr1: "tr1 = dirs @ (if v \<noteq> 0 then [Write training_notice, Flush] else [])"
    and dirs: "set dirs \<subseteq> {Isdir checkpoints_dir, Makedirs checkpoints_dir}"
    by auto
  have quiet: "filter is_warn tr1 = []" "filter is_load tr1 = []"
    by (simp_all add: tr1 filter_dirs [OF dirs])
  show ?thesis
    unfolding run
    by (cases "warn_filter w2") (simp_all add: warnings_warn_def quiet)
qed

theorem train_warns_without_checkpoint_file_witness:
  "fst (train idle_model example_data 100 128 callbacks_default (Some ''m1'') ''val_loss'' 0
          Map.empty (example_world, [])) = Inr ''history''
   \<and> warn_shown (fst (snd (train idle_model example_data 100 128 callbacks_default (Some ''m1'')
          ''val_loss'' 0 Map.empty (example_world, [])))) = [checkpoint_warning]
   \<and> filter is_warn (snd (snd (train idle_model example_data 100 128 callbacks_default
          (Some ''m1'') ''val_loss'' 0 Map.empty (example_world, [])))) = [Warn checkpoint_warning]
   \<and> fst (train idle_model example_data 100 128 callbacks_default (Some ''m1'') ''val_loss'' 0
          Map.empty (example_world\<lparr>warn_registry := {checkpoint_warning}\<rparr>, [])) = Inr ''history''
   \<and> warn_shown (fst (snd (train idle_model example_data 100 128 callbacks_default (Some ''m1'')
          ''val_loss'' 0 Map.empty (example_world\<lparr>warn_registry := {checkpoint_warning}\<rparr>, []))))
        = []
   \<and> fst (train idle_model example_data 100 128 callbacks_default (Some ''m1'') ''val_loss'' 0
          Map.empty (example_world\<lparr>warn_filter := Act_error\<rparr>, [])) =
        Inl (UserWarning checkpoint_warning)
   \<and> warn_shown (fst (snd (train idle_model example_data 100 128 callbacks_default (Some ''m1'')
          ''val_loss'' 0 Map.empty (example_world\<lparr>warn_filter := Act_always\<rparr>, []))))
        = [checkpoint_warning]"
proof -
  let ?a = "\<lparr>fa_x = 1::nat, fa_y = 2, fa_validation_data = None, fa_batch_size = 128,
             fa_nb_epoch = 100, fa_callbacks = callbacks_default, fa_verbose = 0,
             fa_kwargs = (Map.empty :: string \<rightharpoonup> unit)\<rparr>"
  let ?tr1 = "[Isdir ''checkpoints/'', Makedirs ''checkpoints/''] :: (nat, unit) event list"
  let ?w0 = "\<lambda>f r. example_world\<lparr>warn_filter := f, warn_registry := r\<rparr>"
  let ?w1 = "\<lambda>f r. example_world
     \<lparr>warn_filter := f, warn_registry := r,
      fs := [''checkpoints/'' \<mapsto> Dir],
      list_store := (\<lambda>r. [])(callbacks_default :=
        [ModelCheckpoint \<lparr>filepath = ''checkpoints/m1.h5'', monitor = ''val_loss'',
                           save_weights_only = True, save_best_only = True\<rparr>])\<rparr>"
  let ?w2 = "\<lambda>f r. (?w1 f r)\<lparr>weights := 9\<rparr>"
  have s: "train_setup example_data 100 128 callbacks_default (Some ''m1'') ''val_loss'' 0
             Map.empty (?w0 f r, []) = (Inr ?a, (?w1 f r, ?tr1))" for f r
    by (simp add: train_setup_def prim_defs example_defs)
  have k: "fa_kwargs ?a ''validation_data'' = None"
    by simp
  have c: "fit idle_model ?a (?w1 f r) = (Inr ''history'', ?w2 f r)" for f r
    by (simp add: idle_model_def)
  have e: "\<not> holds_file (fs (?w2 f r) (''checkpoints/'' @ ''m1'' @ ''.h5''))" for f r
    by (simp add: example_world_def)
  have w: "?w0 Act_default {} = example_world"
    "?w0 Act_default {checkpoint_warning} = example_world\<lparr>warn_registry := {checkpoint_warning}\<rparr>"
    "?w0 Act_error {} = example_world\<lparr>warn_filter := Act_error\<rparr>"
    "?w0 Act_always {} = example_world\<lparr>warn_filter := Act_always\<rparr>"
    by (simp_all add: example_world_def)
  have t1: "fst (train idle_model example_data 100 128 callbacks_default (Some ''m1'')
             ''val_loss'' 0 Map.empty (?w0 Act_default {}, [])) = Inr ''history''
         \<and> warn_shown (fst (snd (train idle_model example_data 100 128 callbacks_default
             (Some ''m1'') ''val_loss'' 0 Map.empty (?w0 Act_default {}, [])))) = [checkpoint_warning]
         \<and> filter is_warn (snd (snd (train idle_model example_data 100 128 callbacks_default
             (Some ''m1'') ''val_loss'' 0 Map.empty (?w0 Act_default {}, [])))) = [Warn checkpoint_warning]"
    using train_warns_without_checkpoint_file [OF s [where f = Act_default and r = "{}"] k
        c [where f = Act_default and r = "{}"] e [where f = Act_default and r = "{}"]]
    by (simp add: example_world_def)
  have t2: "fst (train idle_model example_data 100 128 callbacks_default (Some ''m1'')
             ''val_loss'' 0 Map.empty (?w0 Act_default {checkpoint_warning}, [])) = Inr ''history''
         \<and> warn_shown (fst (snd (train idle_model example_data 100 128 callbacks_default
             (Some ''m1'') ''val_loss'' 0 Map.empty (?w0 Act_default {checkpoint_warning}, [])))) = []"
    using train_warns_without_checkpoint_file
        [OF s [where f = Act_default and r = "{checkpoint_warning}"] k
        c [where f = Act_default and r = "{checkpoint_warning}"]
        e [where f = Act_default and r = "{checkpoint_warning}"]]
    by (simp add: example_world_def)
  have t3: "fst (train idle_model example_data 100 128 callbacks_default (Some ''m1'')
             ''val_loss'' 0 Map.empty (?w0 Act_error {}, [])) = Inl (UserWarning checkpoint_warning)"
    using train_warns_without_checkpoint_file [OF s [where f = Act_error and r = "{}"] k
        c [where f = Act_error and r = "{}"] e [where f = Act_error and r = "{}"]]
    by (simp add: example_world_def)
  have t4: "warn_shown (fst (snd (train idle_model example_data 100 128 callbacks_default
             (Some ''m1'') ''val_loss'' 0 Map.empty (?w0 Act_always {}, [])))) = [checkpoint_warning]"
    using train_warns_without_checkpoint_file [OF s [where f = Act_always and r = "{}"] k
        c [where f = Act_always and r = "{}"] e [where f = Act_always and r = "{}"]]
    by (simp add: example_world_def)
  have direct: "snd (snd (train idle_model example_data 100 128 callbacks_default (Some ''m1'')
      ''val_loss'' 0 Map.empty (example_world, []))) =
      [Isdir ''checkpoints/'', Makedirs ''checkpoints/'', Fit ?a,
       Isfile ''checkpoints/m1.h5'', Warn checkpoint_warning]"
    by (simp add: train_def call_fit_def call_load_weights_def idle_model_def
        restore_weights_def prim_defs example_defs)
  from t1 t2 t3 t4 direct show ?thesis
    unfolding w by simp
qed

subsection \<open>The callbacks handed to \<open>fit\<close>\<close>

text \<open>
  Claim C3, at the second of two successive calls that leave \<open>callbacks\<close> out, the
  first with \<open>checkpoint='a'\<close> and the second with \<open>checkpoint='b'\<close>, on a model
  whose \<open>fit\<close> returns its arguments and the contents of the list it was handed. In
  the first call \<open>fit\<close> receives the empty default extended with the one hook for
  \<open>a\<close>, configured as the claim says. In the second call the caller's sequence is
  again the empty default, and \<open>fit\<close> receives it extended with two hooks, the hook
  for \<open>a\<close> and the hook for \<open>b\<close>: line 63 extended the shared default list object
  in place during the first call.
\<close>

theorem second_default_call_fit_arguments:
  "list_store example_world callbacks_default = []
   \<and> fst (train echo_model example_data 100 128 callbacks_default (Some ''a'') ''val_loss'' 0
             Map.empty (example_world, [])) =
       Inr (\<lparr>fa_x = 1, fa_y = 2, fa_validation_data = None, fa_batch_size = 128,
              fa_nb_epoch = 100, fa_callbacks = callbacks_default, fa_verbose = 0,
              fa_kwargs = Map.empty\<rparr>,
            [ModelCheckpoint \<lparr>filepath = ''checkpoints/a.h5'', monitor = ''val_loss'',
                               save_weights_only = True, save_best_only = True\<rparr>])
   \<and> fst (train echo_model example_data 100 128 callbacks_default (Some ''b'') ''val_loss'' 0
             Map.empty
             (fst (snd (train echo_model example_data 100 128 callbacks_default (Some ''a'')
                          ''val_loss'' 0 Map.empty (example_world, []))), [])) =
       Inr (\<lparr>fa_x = 1, fa_y = 2, fa_validation_data = None, fa_batch_size = 128,
              fa_nb_epoch = 100, fa_callbacks = callbacks_default, fa_verbose = 0,
              fa_kwargs = Map.empty\<rparr>,
            [ModelCheckpoint \<lparr>filepath = ''checkpoints/a.h5'', monitor = ''val_loss'',
                               save_weights_only = True, save_best_only = True\<rparr>,
             ModelCheckpoint \<lparr>filepath = ''checkpoints/b.h5'', monitor = ''val_loss'',
                               save_weights_only = True, save_best_only = True\<rparr>])"
  by (simp add: train_def call_fit_def call_load_weights_def echo_model_def restore_weights_def
      prim_defs example_defs)

subsection \<open>The checkpoints directory\<close>

text \<open>
  Claim C5. In a call of \<open>train\<close> with \<open>checkpoint\<close> set:
  \<^item> whenever the setup reaches the call of \<open>fit\<close>, \<open>checkpoints/\<close> is a directory
    in the world in which \<open>fit\<close> of the model is called;
  \<^item> when nothing is named \<open>checkpoints/\<close> and the directory can be created, the
    setup creates it, after having checked for it, and goes on to the call of \<open>fit\<close>;
  \<^item> when \<open>checkpoints/\<close> is a directory already, as after an earlier call, the
    setup checks for it, leaves the file system as it is and goes on to the call of
    \<open>fit\<close>; whatever the dataset, it raises no \<open>FileExistsError\<close>, and the whole
    call never attempts to create the directory.
\<close>

theorem train_checkpoints_directory:
  "(train_setup data n b cbs (Some c) mon v kw (w0, []) = (Inr a, (w1, tr1))
      \<longrightarrow> fs w1 ''checkpoints/'' = Some Dir
        \<and> train model data n b cbs (Some c) mon v kw (w0, []) =
            (if fa_kwargs a ''validation_data'' \<noteq> None then (Inl TypeError, (w1, tr1))
             else
               (case fit model a w1 of
                  (Inl e, w2) \<Rightarrow> (Inl e, (w2, tr1 @ [Fit a]))
                | (Inr h, w2) \<Rightarrow> train_finish model (Some c) v h (w2, tr1 @ [Fit a]))))
   \<and> (data ''train'' = Some [x, y] \<and> data ''test'' = Some [x', y']
       \<and> fs w0 ''checkpoints/'' = None \<and> mkdir_fault w0 ''checkpoints/'' = None
      \<longrightarrow> train_setup data n b cbs (Some c) mon v kw (w0, []) =
          (Inr \<lparr>fa_x = x, fa_y = y, fa_validation_data = data ''valid'', fa_batch_size = b,
                 fa_nb_epoch = n, fa_callbacks = cbs, fa_verbose = v, fa_kwargs = kw\<rparr>,
           (w0\<lparr>fs := (fs w0)(''checkpoints/'' \<mapsto> Dir),
               list_store := (list_store w0)(cbs := list_store w0 cbs @
                 [ModelCheckpoint \<lparr>filepath = ''checkpoints/'' @ c @ ''.h5'', monitor = mon,
                                    save_weights_only = True, save_best_only = True\<rparr>])\<rparr>,
            [Isdir ''checkpoints/'', Makedirs ''checkpoints/'']
              @ (if v \<noteq> 0 then [Write training_notice, Flush] else []))))
   \<and> (data ''train'' = Some [x, y] \<and> data ''test'' = Some [x', y']
       \<and> fs w0 ''checkpoints/'' = Some Dir
      \<longrightarrow> train_setup data n b cbs (Some c) mon v kw (w0, []) =
          (Inr \<lparr>fa_x = x, fa_y = y, fa_validation_data = data ''valid'', fa_batch_size = b,
                 fa_nb_epoch = n, fa_callbacks = cbs, fa_verbose = v, fa_kwargs = kw\<rparr>,
           (w0\<lparr>list_store := (list_store w0)(cbs := list_store w0 cbs @
                 [ModelCheckpoint \<lparr>filepath = ''checkpoints/'' @ c @ ''.h5'', monitor = mon,
                                    save_weights_only = True, save_best_only = True\<rparr>])\<rparr>,
            [Isdir ''checkpoints/'']
              @ (if v \<noteq> 0 then [Write training_notice, Flush] else []))))
   \<and> (fs w0 ''checkpoints/'' = Some Dir
      \<longrightarrow> (\<forall>p. fst (train_setup data n b cbs (Some c) mon v kw (w0, [])) \<noteq> Inl (FileExistsError p))
        \<and> filter is_makedirs (snd (snd (train model data n b cbs (Some c) mon v kw (w0, [])))) = [])"
proof -
  have one: "fs w1 ''checkpoints/'' = Some Dir
        \<and> train model data n b cbs (Some c) mon v kw (w0, []) =
            (if fa_kwargs a ''validation_data'' \<noteq> None then (Inl TypeError, (w1, tr1))
             else
               (case fit model a w1 of
                  (Inl e, w2) \<Rightarrow> (Inl e, (w2, tr1 @ [Fit a]))
                | (Inr h, w2) \<Rightarrow> train_finish model (Some c) v h (w2, tr1 @ [Fit a])))"
    if s: "train_setup data n b cbs (Some c) mon v kw (w0, []) = (Inr a, (w1, tr1))"
  proof -
    have "fs w1 ''checkpoints/'' = Some Dir"
      using s unfolding train_setup_def
      by (auto simp: bind_def ret_def raise_def do_when_def getitem_def unpack2_def
          os_path_isdir_def os_makedirs_def sys_stdout_write_def sys_stdout_flush_def
          list_iadd_def checkpoints_dir_def
          split: option.splits list.splits if_splits prod.splits sum.splits)
    moreover have "train model data n b cbs (Some c) mon v kw (w0, []) =
            (if fa_kwargs a ''validation_data'' \<noteq> None then (Inl TypeError, (w1, tr1))
             else
               (case fit model a w1 of
                  (Inl e, w2) \<Rightarrow> (Inl e, (w2, tr1 @ [Fit a]))
                | (Inr h, w2) \<Rightarrow> train_finish model (Some c) v h (w2, tr1 @ [Fit a])))"
      using s by (simp add: train_decomp bind_def call_fit_def split: prod.splits sum.splits)
    ultimately show ?thesis by simp
  qed
  have two: "train_setup data n b cbs (Some c) mon v kw (w0, []) =
          (Inr \<lparr>fa_x = x, fa_y = y, fa_validation_data = data ''valid'', fa_batch_size = b,
                 fa_nb_epoch = n, fa_callbacks = cbs, fa_verbose = v, fa_kwargs = kw\<rparr>,
           (w0\<lparr>fs := (fs w0)(''checkpoints/'' \<mapsto> Dir),
               list_store := (list_store w0)(cbs := list_store w0 cbs @
                 [ModelCheckpoint \<lparr>filepath = ''checkpoints/'' @ c @ ''.h5'', monitor = mon,
                                    save_weights_only = True, save_best_only = True\<rparr>])\<rparr>,
            [Isdir ''checkpoints/'', Makedirs ''checkpoints/'']
              @ (if v \<noteq> 0 then [Write training_notice, Flush] else [])))"
    if "data ''train'' = Some [x, y]" "data ''test'' = Some [x', y']"
      "fs w0 ''checkpoints/'' = None" "mkdir_fault w0 ''checkpoints/'' = None"
    using that unfolding train_setup_def
    by (simp add: bind_def ret_def do_when_def getitem_def unpack2_def os_path_isdir_def
        os_makedirs_def sys_stdout_write_def sys_stdout_flush_def list_iadd_def
        checkpoints_dir_def checkpoint_path_def)
  have three: "train_setup data n b cbs (Some c) mon v kw (w0, []) =
          (Inr \<lparr>fa_x = x, fa_y = y, fa_validation_data = data ''valid'', fa_batch_size = b,
                 fa_nb_epoch = n, fa_callbacks = cbs, fa_verbose = v, fa_kwargs = kw\<rparr>,
           (w0\<lparr>list_store := (list_store w0)(cbs := list_store w0 cbs @
                 [ModelCheckpoint \<lparr>filepath = ''checkpoints/'' @ c @ ''.h5'', monitor = mon,
                                    save_weights_only = True, save_best_only = True\<rparr>])\<rparr>,
            [Isdir ''checkpoints/'']
              @ (if v \<noteq> 0 then [Write training_notice, Flush] else [])))"
    if "data ''train'' = Some [x, y]" "data ''test'' = Some [x', y']"
      "fs w0 ''checkpoints/'' = Some Dir"
    using that unfolding train_setup_def
    by (simp add: bind_def ret_def do_when_def getitem_def unpack2_def os_path_isdir_def
        os_makedirs_def sys_stdout_write_def sys_stdout_flush_def list_iadd_def
        checkpoints_dir_def checkpoint_path_def)
  have four: "(\<forall>p. fst (train_setup data n b cbs (Some c) mon v kw (w0, [])) \<noteq> Inl (FileExistsError p))
        \<and> filter is_makedirs (snd (snd (train model data n b cbs (Some c) mon v kw (w0, [])))) = []"
    if d: "fs w0 ''checkpoints/'' = Some Dir"
  proof -
    obtain r w1' tr1' where s: "train_setup data n b cbs (Some c) mon v kw (w0, []) = (r, (w1', tr1'))"
      by (metis prod.exhaust)
    have "(\<forall>p. r \<noteq> Inl (FileExistsError p)) \<and> filter is_makedirs tr1' = []"
      using d s unfolding train_setup_def
      by (auto simp: bind_def ret_def raise_def do_when_def getitem_def unpack2_def
          os_path_isdir_def os_makedirs_def sys_stdout_write_def sys_stdout_flush_def
          list_iadd_def checkpoints_dir_def
          split: option.splits list.splits if_splits prod.splits sum.splits)
    then have r: "\<forall>p. r \<noteq> Inl (FileExistsError p)" and tr1: "filter is_makedirs tr1' = []"
      by auto
    have "filter is_makedirs (snd (snd (train model data n b cbs (Some c) mon v kw (w0, [])))) = []"
    proof (cases r)
      case (Inl e)
      with s tr1 show ?thesis by (simp add: train_setup_raises)
    next
      case (Inr a')
      obtain r2 w2 tr2 where f: "call_fit model a' (w1', tr1') = (r2, (w2, tr2))"
        by (metis prod.exhaust)
      from call_fit_trace [OF f] tr1 have tr2: "filter is_makedirs tr2 = []"
        by auto
      show ?thesis
      proof (cases r2)
        case (Inl e)
        with s Inr f tr2 show ?thesis by (simp add: train_fit_raises)
      next
        case (Inr h)
        obtain r3 w3 tr3 where e: "train_finish model (Some c) v h (w2, tr2) = (r3, (w3, tr3))"
          by (metis prod.exhaust)
        from train_finish_trace [OF e] tr2 have "filter is_makedirs tr3 = []"
          by auto
        with s \<open>r = Inr a'\<close> f Inr e show ?thesis
          by (simp add: train_fit_returns)
      qed
    qed
    with r s show ?thesis by simp
  qed
  from one two three four show ?thesis by blast
qed

text \<open>
  Two calls in sequence, in a fresh process and an empty working directory: the first
  creates the directory, the second finds it and does not try again.
\<close>

theorem train_checkpoints_directory_witness:
  "train idle_model example_data 100 128 callbacks_default (Some ''m1'') ''val_loss'' 0 Map.empty
     (example_world, []) =
     (Inr ''history'',
      (example_world
        \<lparr>fs := [''checkpoints/'' \<mapsto> Dir],
         list_store := (\<lambda>r. [])(callbacks_default :=
           [ModelCheckpoint \<lparr>filepath = ''checkpoints/m1.h5'', monitor = ''val_loss'',
                              save_weights_only = True, save_best_only = True\<rparr>]),
         weights := 9, warn_registry := {checkpoint_warning},
         warn_shown := [checkpoint_warning]\<rparr>,
       [Isdir ''checkpoints/'', Makedirs ''checkpoints/'',
        Fit \<lparr>fa_x = 1, fa_y = 2, fa_validation_data = None, fa_batch_size = 128,
             fa_nb_epoch = 100, fa_callbacks = callbacks_default, fa_verbose = 0,
             fa_kwargs = Map.empty\<rparr>,
        Isfile ''checkpoints/m1.h5'', Warn checkpoint_warning]))
   \<and> train idle_model example_data 100 128 callbacks_default (Some ''m1'') ''val_loss'' 0 Map.empty
     (example_world
        \<lparr>fs := [''checkpoints/'' \<mapsto> Dir],
         list_store := (\<lambda>r. [])(callbacks_default :=
           [ModelCheckpoint \<lparr>filepath = ''checkpoints/m1.h5'', monitor = ''val_loss'',
                              save_weights_only = True, save_best_only = True\<rparr>]),
         weights := 9, warn_registry := {checkpoint_warning},
         warn_shown := [checkpoint_warning]\<rparr>, []) =
     (Inr ''history'',
      (example_world
        \<lparr>fs := [''checkpoints/'' \<mapsto> Dir],
         list_store := (\<lambda>r. [])(callbacks_default :=
           [ModelCheckpoint \<lparr>filepath = ''checkpoints/m1.h5'', monitor = ''val_loss'',
                              save_weights_only = True, save_best_only = True\<rparr>,
            ModelCheckpoint \<lparr>filepath = ''checkpoints/m1.h5'', monitor = ''val_loss'',
                              save_weights_only = True, save_best_only = True\<rparr>]),
         weights := 9, warn_registry := {checkpoint_warning},
         warn_shown := [checkpoint_warning]\<rparr>,
       [Isdir ''checkpoints/'',
        Fit \<lparr>fa_x = 1, fa_y = 2, fa_validation_data = None, fa_batch_size = 128,
             fa_nb_epoch = 100, fa_callbacks = callbacks_default, fa_verbose = 0,
             fa_kwargs = Map.empty\<rparr>,
        Isfile ''checkpoints/m1.h5'', Warn checkpoint_warning]))"
proof -
  let ?hook = "ModelCheckpoint \<lparr>filepath = ''checkpoints/m1.h5'', monitor = ''val_loss'',
                              save_weights_only = True, save_best_only = True\<rparr> :: unit callback"
  let ?a = "\<lparr>fa_x = 1::nat, fa_y = 2, fa_validation_data = None, fa_batch_size = 128,
             fa_nb_epoch = 100, fa_callbacks = callbacks_default, fa_verbose = 0,
             fa_kwargs = (Map.empty :: string \<rightharpoonup> unit)\<rparr>"
  let ?w1 = "example_world
        \<lparr>fs := [''checkpoints/'' \<mapsto> Dir],
         list_store := (\<lambda>r. [])(callbacks_default := [?hook])\<rparr>"
  let ?wA = "example_world
        \<lparr>fs := [''checkpoints/'' \<mapsto> Dir],
         list_store := (\<lambda>r. [])(callbacks_default := [?hook]),
         weights := 9, warn_registry := {checkpoint_warning},
         warn_shown := [checkpoint_warning]\<rparr>"
  let ?w1' = "?wA\<lparr>list_store := (\<lambda>r. [])(callbacks_default := [?hook, ?hook])\<rparr>"
  have d1: "example_data ''train'' = Some [1, 2]" and d2: "example_data ''test'' = Some [3, 4]"
    and d3: "example_data ''valid'' = None"
    by (simp_all add: example_data_def)
  have absent: "fs example_world ''checkpoints/'' = None"
    "mkdir_fault example_world ''checkpoints/'' = None"
    by (simp_all add: example_world_def)
  have present: "fs ?wA ''checkpoints/'' = Some Dir"
    by simp
  have created: "fs (fst (snd (train_setup example_data 100 128 callbacks_default (Some ''m1'')
      ''val_loss'' 0 (Map.empty :: string \<rightharpoonup> unit) (example_world, []))))
      ''checkpoints/'' = Some Dir"
    and checked: "snd (snd (train_setup example_data 100 128 callbacks_default (Some ''m1'')
      ''val_loss'' 0 (Map.empty :: string \<rightharpoonup> unit) (?wA, []))) = [Isdir ''checkpoints/'']"
    by (simp_all add: train_setup_def bind_def ret_def do_when_def getitem_def unpack2_def
        os_path_isdir_def os_makedirs_def list_iadd_def example_data_def example_world_def
        checkpoints_dir_def)
  have s1: "train_setup example_data 100 128 callbacks_default (Some ''m1'') ''val_loss'' 0
             Map.empty (example_world, []) =
             (Inr ?a, (?w1, [Isdir ''checkpoints/'', Makedirs ''checkpoints/'']))"
    using train_checkpoints_directory [where data = example_data and x = 1 and y = 2
        and x' = 3 and y' = 4 and ?w0.0 = example_world and n = 100 and b = 128
        and cbs = callbacks_default and c = "''m1''" and mon = "''val_loss''" and v = 0
        and kw = Map.empty, THEN conjunct2, THEN conjunct1] d1 d2 d3 absent
    by (simp add: example_world_def)
  have s2: "train_setup example_data 100 128 callbacks_default (Some ''m1'') ''val_loss'' 0
             Map.empty (?wA, []) = (Inr ?a, (?w1', [Isdir ''checkpoints/'']))"
    using train_checkpoints_directory [where data = example_data and x = 1 and y = 2
        and x' = 3 and y' = 4 and ?w0.0 = "?wA" and n = 100 and b = 128
        and cbs = callbacks_default and c = "''m1''" and mon = "''val_loss''" and v = 0
        and kw = Map.empty, THEN conjunct2, THEN conjunct2, THEN conjunct1] d1 d2 d3 present
    by (simp add: example_world_def)
  have first: "train idle_model example_data 100 128 callbacks_default (Some ''m1'') ''val_loss'' 0
      Map.empty (example_world, []) =
      (case fit idle_model ?a ?w1 of
         (Inl e, w2) \<Rightarrow> (Inl e, (w2, [Isdir ''checkpoints/'', Makedirs ''checkpoints/''] @ [Fit ?a]))
       | (Inr h, w2) \<Rightarrow> train_finish idle_model (Some ''m1'') 0 h
             (w2, [Isdir ''checkpoints/'', Makedirs ''checkpoints/''] @ [Fit ?a]))"
    using train_checkpoints_directory [where data = example_data and ?w0.0 = example_world
        and n = 100 and b = 128 and cbs = callbacks_default and c = "''m1''"
        and mon = "''val_loss''" and v = 0 and kw = Map.empty and a = "?a" and ?w1.0 = "?w1"
        and ?tr1.0 = "[Isdir ''checkpoints/'', Makedirs ''checkpoints/'']"
        and model = idle_model, THEN conjunct1] s1
    by simp
  have second: "train idle_model example_data 100 128 callbacks_default (Some ''m1'') ''val_loss'' 0
      Map.empty (?wA, []) =
      (case fit idle_model ?a ?w1' of
         (Inl e, w2) \<Rightarrow> (Inl e, (w2, [Isdir ''checkpoints/''] @ [Fit ?a]))
       | (Inr h, w2) \<Rightarrow> train_finish idle_model (Some ''m1'') 0 h
             (w2, [Isdir ''checkpoints/''] @ [Fit ?a]))"
    using train_checkpoints_directory [where data = example_data and ?w0.0 = "?wA"
        and n = 100 and b = 128 and cbs = callbacks_default and c = "''m1''"
        and mon = "''val_loss''" and v = 0 and kw = Map.empty and a = "?a" and ?w1.0 = "?w1'"
        and ?tr1.0 = "[Isdir ''checkpoints/'']" and model = idle_model, THEN conjunct1] s2
    by simp
  from created checked show ?thesis
    unfolding first second
    by (simp add: idle_model_def train_finish_def prim_defs example_defs)
qed

subsection \<open>Without a checkpoint\<close>

text \<open>
  Claim C4. In a call of \<open>train\<close> with \<open>checkpoint\<close> left at \<open>None\<close>, whatever the
  outcome, \<open>train\<close> performs no directory check, no directory creation, no file check
  and no loading of weights; and when \<open>fit\<close> returns a history, the call returns that
  history and leaves the world as \<open>fit\<close> left it.
\<close>

theorem train_without_checkpoint:
  "filter is_fs_access (snd (snd (train model data n b cbs None mon v kw (w0, [])))) = []
   \<and> (train_setup data n b cbs None mon v kw (w0, []) = (Inr a, s1)
        \<and> call_fit model a s1 = (Inr h, (w2, tr2))
      \<longrightarrow> train model data n b cbs None mon v kw (w0, []) =
            (Inr h, (w2, tr2 @ (if v \<noteq> 0 then [Write done_notice] else []))))"
proof -
  obtain r w1 tr1 where s: "train_setup data n b cbs None mon v kw (w0, []) = (r, (w1, tr1))"
    by (metis prod.exhaust)
  from train_setup_trace [OF s] have tr1: "filter is_fs_access tr1 = []"
    by auto
  have "filter is_fs_access (snd (snd (train model data n b cbs None mon v kw (w0, [])))) = []"
  proof (cases r)
    case (Inl e)
    with s tr1 show ?thesis by (simp add: train_setup_raises)
  next
    case (Inr a')
    obtain r2 w2' tr2' where f: "call_fit model a' (w1, tr1) = (r2, (w2', tr2'))"
      by (metis prod.exhaust)
    from call_fit_trace [OF f] tr1 have tr2: "filter is_fs_access tr2' = []"
      by auto
    show ?thesis
    proof (cases r2)
      case (Inl e)
      with s Inr f tr2 show ?thesis by (simp add: train_fit_raises)
    next
      case (Inr h')
      with s \<open>r = Inr a'\<close> f tr2 show ?thesis
        by (simp add: train_fit_returns train_finish_None)
    qed
  qed
  moreover have "train_setup data n b cbs None mon v kw (w0, []) = (Inr a, s1)
        \<and> call_fit model a s1 = (Inr h, (w2, tr2))
      \<longrightarrow> train model data n b cbs None mon v kw (w0, []) =
            (Inr h, (w2, tr2 @ (if v \<noteq> 0 then [Write done_notice] else [])))"
    by (simp add: train_fit_returns train_finish_None)
  ultimately show ?thesis by simp
qed

theorem train_without_checkpoint_witness:
  "train idle_model example_data 100 128 callbacks_default None ''val_loss'' 1
     Map.empty (example_world, []) =
     (Inr ''history'',
      (example_world\<lparr>weights := 9\<rparr>,
       [Write training_notice, Flush,
        Fit \<lparr>fa_x = 1, fa_y = 2, fa_validation_data = None, fa_batch_size = 128,
             fa_nb_epoch = 100, fa_callbacks = callbacks_default, fa_verbose = 1,
             fa_kwargs = Map.empty\<rparr>,
        Write done_notice]))"
proof -
  let ?a = "\<lparr>fa_x = 1::nat, fa_y = 2, fa_validation_data = None, fa_batch_size = 128,
             fa_nb_epoch = 100, fa_callbacks = callbacks_default, fa_verbose = 1,
             fa_kwargs = (Map.empty :: string \<rightharpoonup> unit)\<rparr>"
  let ?tr1 = "[Write training_notice, Flush]"
  have s: "train_setup example_data 100 128 callbacks_default None ''val_loss'' 1
             Map.empty (example_world, []) = (Inr ?a, (example_world, ?tr1))"
    by (simp add: train_setup_def prim_defs example_defs)
  have f: "call_fit idle_model ?a (example_world, ?tr1) =
             (Inr ''history'', (example_world\<lparr>weights := 9\<rparr>, ?tr1 @ [Fit ?a]))"
    by (simp add: call_fit_def idle_model_def)
  show ?thesis
    using train_without_checkpoint [of idle_model example_data 100 128 callbacks_default
        "''val_loss''" 1 Map.empty example_world "?a" "(example_world, ?tr1)" "''history''"
        "example_world\<lparr>weights := 9\<rparr>" "?tr1 @ [Fit ?a]"] s f
    by simp
qed


subsection \<open>The shared default list\<close>

text \<open>
  Claim C6, at two successive calls that leave \<open>callbacks\<close> out, the first with
  \<open>checkpoint='a'\<close> and the second with \<open>checkpoint='b'\<close>, on a model whose \<open>fit\<close>
  returns the callbacks it was handed. The default list is empty before the first
  call. The first \<open>fit\<close> receives the hook for \<open>a\<close>; the second \<open>fit\<close> receives
  the hook for \<open>a\<close> and the hook for \<open>b\<close>: the statement \<open>callbacks += [...]\<close>
  has extended the default list object itself, and the hook of the first call is
  still in it.
\<close>

theorem default_callbacks_accumulate:
  "list_store example_world callbacks_default = []
   \<and> fst (train probe_model example_data 100 128 callbacks_default (Some ''a'') ''val_loss'' 0
             Map.empty (example_world, [])) =
       Inr [ModelCheckpoint \<lparr>filepath = ''checkpoints/a.h5'', monitor = ''val_loss'',
                              save_weights_only = True, save_best_only = True\<rparr>]
   \<and> fst (train probe_model example_data 100 128 callbacks_default (Some ''b'') ''val_loss'' 0
             Map.empty
             (fst (snd (train probe_model example_data 100 128 callbacks_default (Some ''a'')
                          ''val_loss'' 0 Map.empty (example_world, []))), [])) =
       Inr [ModelCheckpoint \<lparr>filepath = ''checkpoints/a.h5'', monitor = ''val_loss'',
                              save_weights_only = True, save_best_only = True\<rparr>,
            ModelCheckpoint \<lparr>filepath = ''checkpoints/b.h5'', monitor = ''val_loss'',
                              save_weights_only = True, save_best_only = True\<rparr>]"
  by (simp add: train_def call_fit_def call_load_weights_def probe_model_def prim_defs
      example_defs)

subsection \<open>Progress lines\<close>

text \<open>
  Claim C7 does not hold for every call: in a verbose call whose \<open>fit\<close> raises, the
  start notice is the only line written, since the exception leaves \<open>train\<close> before
  the completion notice.
\<close>

theorem train_verbose_fit_raises:
  "train failing_model example_data 100 128 callbacks_default None ''val_loss'' 1 Map.empty
     (example_world, []) =
     (Inl (Raised ''fit failed''),
      (example_world,
       [Write training_notice, Flush,
        Fit \<lparr>fa_x = 1, fa_y = 2, fa_validation_data = None, fa_batch_size = 128,
             fa_nb_epoch = 100, fa_callbacks = callbacks_default, fa_verbose = 1,
             fa_kwargs = Map.empty\<rparr>]))
   \<and> length (filter is_write (snd (snd (train failing_model example_data 100 128
        callbacks_default None ''val_loss'' 1 Map.empty (example_world, []))))) = 1"
  by (simp add: train_def call_fit_def failing_model_def prim_defs example_defs)

text \<open>
  Claim C7, amended. In a call of \<open>train\<close> with \<open>verbose\<close> disabled, \<open>train\<close> writes
  nothing to standard output, whatever the outcome and the checkpoint configuration.
  In a call with \<open>verbose\<close> enabled in which the call of \<open>fit\<close> is reached and
  returns, \<open>train\<close> writes exactly two lines: the start notice, before the call of
  \<open>fit\<close>, and the completion notice, after it.
\<close>

theorem train_progress_lines:
  "(v = 0 \<longrightarrow> filter is_write (snd (snd (train model data n b cbs ck mon v kw (w0, [])))) = [])
   \<and> (v \<noteq> 0 \<and> train_setup data n b cbs ck mon v kw (w0, []) = (Inr a, (w1, tr1))
         \<and> call_fit model a (w1, tr1) = (Inr h, (w2, tr2))
      \<longrightarrow> (\<exists>post. snd (snd (train model data n b cbs ck mon v kw (w0, []))) = tr1 @ [Fit a] @ post
             \<and> filter is_write tr1 = [Write training_notice]
             \<and> filter is_write post = [Write done_notice]))"
proof -
  have silent: "filter is_write (snd (snd (train model data n b cbs ck mon 0 kw (w0, [])))) = []"
  proof -
    obtain r w1' tr1' where s: "train_setup data n b cbs ck mon 0 kw (w0, []) = (r, (w1', tr1'))"
      by (metis prod.exhaust)
    from train_setup_trace [OF s] obtain dirs where
      "tr1' = dirs" and dirs: "set dirs \<subseteq> {Isdir checkpoints_dir, Makedirs checkpoints_dir}"
      by auto
    then have tr1: "filter is_write tr1' = []"
      by (simp add: filter_dirs [OF dirs])
    show ?thesis
    proof (cases r)
      case (Inl e)
      with s tr1 show ?thesis by (simp add: train_setup_raises)
    next
      case (Inr a')
      obtain r2 w2' tr2' where f: "call_fit model a' (w1', tr1') = (r2, (w2', tr2'))"
        by (metis prod.exhaust)
      from call_fit_trace [OF f] tr1 have tr2: "filter is_write tr2' = []"
        by auto
      show ?thesis
      proof (cases r2)
        case (Inl e)
        with s Inr f tr2 show ?thesis by (simp add: train_fit_raises)
      next
        case (Inr h')
        obtain r3 w3 tr3 where e: "train_finish model ck 0 h' (w2', tr2') = (r3, (w3, tr3))"
          by (metis prod.exhaust)
        from train_finish_trace [OF e] tr2 have "filter is_write tr3 = []"
          by auto
        with s \<open>r = Inr a'\<close> f Inr e show ?thesis
          by (simp add: train_fit_returns)
      qed
    qed
  qed
  have loud: "\<exists>post. snd (snd (train model data n b cbs ck mon v kw (w0, []))) = tr1 @ [Fit a] @ post
             \<and> filter is_write tr1 = [Write training_notice]
             \<and> filter is_write post = [Write done_notice]"
    if v: "v \<noteq> 0" and s: "train_setup data n b cbs ck mon v kw (w0, []) = (Inr a, (w1, tr1))"
      and f: "call_fit model a (w1, tr1) = (Inr h, (w2, tr2))"
  proof -
    from train_setup_trace [OF s] v obtain dirs where
      "tr1 = dirs @ [Write training_notice, Flush]"
      and dirs: "set dirs \<subseteq> {Isdir checkpoints_dir, Makedirs checkpoints_dir}"
      by auto
    then have tr1: "filter is_write tr1 = [Write training_notice]"
      by (simp add: filter_dirs [OF dirs])
    have tr2: "tr2 = tr1 @ [Fit a]"
      using f by (rule call_fit_returns_trace)
    obtain r3 w3 tr3 where e: "train_finish model ck v h (w2, tr2) = (r3, (w3, tr3))"
      by (metis prod.exhaust)
    from train_finish_trace [OF e] v obtain post where
      "tr3 = tr2 @ [Write done_notice] @ post" "filter is_write post = []"
      by auto
    with s f e tr1 tr2 show ?thesis
      by (simp add: train_fit_returns)
  qed
  from silent loud show ?thesis by blast
qed

theorem train_progress_lines_witness:
  "filter is_write (snd (snd (train idle_model example_data 100 128 callbacks_default
       (Some ''m1'') ''val_loss'' 0 Map.empty (example_world, [])))) = []
   \<and> filter is_write (snd (snd (train idle_model example_data 100 128 callbacks_default
       (Some ''m1'') ''val_loss'' 1 Map.empty (example_world, [])))) =
       [Write training_notice, Write done_notice]"
proof -
  let ?a = "\<lparr>fa_x = 1::nat, fa_y = 2, fa_validation_data = None, fa_batch_size = 128,
             fa_nb_epoch = 100, fa_callbacks = callbacks_default, fa_verbose = 1,
             fa_kwargs = (Map.empty :: string \<rightharpoonup> unit)\<rparr>"
  let ?w1 = "example_world
     \<lparr>fs := [checkpoints_dir \<mapsto> Dir],
      list_store := (\<lambda>r. [])(callbacks_default :=
        [ModelCheckpoint \<lparr>filepath = checkpoint_path ''m1'', monitor = ''val_loss'',
                           save_weights_only = True, save_best_only = True\<rparr>])\<rparr>"
  let ?tr1 = "[Isdir checkpoints_dir, Makedirs checkpoints_dir, Write training_notice, Flush]"
  let ?w2 = "?w1\<lparr>weights := 9\<rparr>"
  have s: "train_setup example_data 100 128 callbacks_default (Some ''m1'') ''val_loss'' 1
             Map.empty (example_world, []) = (Inr ?a, (?w1, ?tr1))"
    by (simp add: train_setup_def prim_defs example_defs)
  have f: "call_fit idle_model ?a (?w1, ?tr1) = (Inr ''history'', (?w2, ?tr1 @ [Fit ?a]))"
    by (simp add: call_fit_def idle_model_def)
  have quiet: "filter is_write (snd (snd (train idle_model example_data 100 128 callbacks_default
       (Some ''m1'') ''val_loss'' 0 Map.empty (example_world, [])))) = []"
    using train_progress_lines [of 0 idle_model example_data 100 128 callbacks_default
        "Some ''m1''" "''val_loss''" Map.empty example_world]
    by simp
  have loud: "filter is_write (snd (snd (train idle_model example_data 100 128 callbacks_default
       (Some ''m1'') ''val_loss'' 1 Map.empty (example_world, [])))) =
       [Write training_notice, Write done_notice]"
    using train_progress_lines [of 1 idle_model example_data 100 128 callbacks_default
        "Some ''m1''" "''val_loss''" Map.empty example_world "?a" "?w1" "?tr1" "''history''"
        "?w2" "?tr1 @ [Fit ?a]"] s f
    by auto
  from quiet loud show ?thesis by simp
qed

subsection \<open>Exceptions\<close>



subsection \<open>The timer\<close>

text \<open>
  Claim C9. Inside the managed scope, the callable that \<open>elapsed_timer\<close> yields
  returns the clock value at the moment of the call minus the clock value read when
  the scope was entered.
\<close>

theorem elapsed_timer_reports_elapsed:
  "elapsed_timer_call (elapsed_timer_enter start) now = now - start"
  by (simp add: elapsed_timer_enter_def)

text \<open>Once the scope has ended normally, it returns the duration of the scope instead.\<close>

lemma elapsed_timer_after_exit:
  "elapsed_timer_call (elapsed_timer_exit end_time (elapsed_timer_enter start)) now = end_time - start"
  by (simp add: elapsed_timer_enter_def)

subsection \<open>The test split\<close>

lemma getitem_other_key: "k \<noteq> k' \<Longrightarrow> getitem (d(k' \<mapsto> v)) k = getitem d k"
  by (simp add: getitem_def)

lemma bind_getitem_pair: "d k = Some [p, q] \<Longrightarrow> bind (bind (getitem d k) unpack2) f = f (p, q)"
  by (simp add: bind_def getitem_def unpack2_def ret_def)

text \<open>
  Claim C10. When the dataset has no \<open>test\<close> key, \<open>train\<close> raises before it does
  anything else: the state is untouched, so neither the file system nor \<open>fit\<close> is
  reached. The exception is \<open>KeyError\<close>, for \<open>test\<close> when the \<open>train\<close> entry is a
  pair and for \<open>train\<close> when that key is missing too. And the pair stored under
  \<open>test\<close> has no effect: replacing it by any other pair gives the same call, that is
  the same call of \<open>fit\<close>, the same actions, the same outcome and the same final
  world, from every state.
\<close>

theorem train_ignores_test_values:
  "(data ''test'' = None
      \<longrightarrow> (\<exists>e. train model data n b cbs ck mon v kw s0 = (Inl e, s0))
        \<and> (data ''train'' = None
            \<longrightarrow> train model data n b cbs ck mon v kw s0 = (Inl (KeyError ''train''), s0))
        \<and> (data ''train'' = Some [x, y]
            \<longrightarrow> train model data n b cbs ck mon v kw s0 = (Inl (KeyError ''test''), s0)))
   \<and> (data ''test'' = Some [p, q]
      \<longrightarrow> train model (data(''test'' \<mapsto> [p', q'])) n b cbs ck mon v kw =
          train model data n b cbs ck mon v kw)"
proof -
  have absent: "(\<exists>e. train model data n b cbs ck mon v kw s0 = (Inl e, s0))
        \<and> (data ''train'' = None
            \<longrightarrow> train model data n b cbs ck mon v kw s0 = (Inl (KeyError ''train''), s0))
        \<and> (data ''train'' = Some [x, y]
            \<longrightarrow> train model data n b cbs ck mon v kw s0 = (Inl (KeyError ''test''), s0))"
    if "data ''test'' = None"
    using that unfolding train_def
    by (auto simp: bind_def ret_def raise_def getitem_def unpack2_def
        split: option.splits list.splits)
  have same: "train model (data(''test'' \<mapsto> [p', q'])) n b cbs ck mon v kw =
          train model data n b cbs ck mon v kw"
    if "data ''test'' = Some [p, q]"
    using that by (simp add: train_def getitem_other_key bind_getitem_pair)
  from absent same show ?thesis by blast
qed

theorem train_ignores_test_values_witness:
  "train idle_model [''train'' \<mapsto> [1, 2]] 100 128 callbacks_default None ''val_loss'' 1 Map.empty
     (example_world, []) = (Inl (KeyError ''test''), (example_world, []))
   \<and> train idle_model (example_data(''test'' \<mapsto> [7, 8])) 100 128 callbacks_default None
       ''val_loss'' 1 Map.empty =
     train idle_model example_data 100 128 callbacks_default None ''val_loss'' 1 Map.empty"
proof -
  have a: "train idle_model [''train'' \<mapsto> [1, 2]] 100 128 callbacks_default None ''val_loss'' 1
     Map.empty (example_world, []) = (Inl (KeyError ''test''), (example_world, []))"
    using train_ignores_test_values [of "[''train'' \<mapsto> [1, 2]]" idle_model 100 128
        callbacks_default None "''val_loss''" 1 Map.empty "(example_world, [])" 1 2]
    by simp
  have b: "train idle_model (example_data(''test'' \<mapsto> [7, 8])) 100 128 callbacks_default None
       ''val_loss'' 1 Map.empty =
     train idle_model example_data 100 128 callbacks_default None ''val_loss'' 1 Map.empty"
    using train_ignores_test_values [of example_data idle_model 100 128
        callbacks_default None "''val_loss''" 1 Map.empty _ _ _ 3 4 7 8]
    by (simp add: example_data_def)
  from a b show ?thesis by simp
qed

end
